theory Spec2Isabelle
  imports Main "HOL-Library.Sublist"
begin

section \<open>decman.config: the command table and the module's configuration values\<close>

text \<open>
  The module \<^verbatim>\<open>decman/config.py\<close> consists of the class \<^verbatim>\<open>Commands\<close>, whose twenty
  methods each return the argument vector (a \<^verbatim>\<open>list[str]\<close>) of one external program,
  and of eight module-level variables. Python's \<^verbatim>\<open>str\<close> is \<^typ>\<open>string\<close>, a
  \<^verbatim>\<open>list[str]\<close> is \<^typ>\<open>string list\<close>, list concatenation \<^verbatim>\<open>+\<close> is \<open>@\<close>.
\<close>

subsection \<open>The class \<^verbatim>\<open>Commands\<close>\<close>

text \<open>
  An instance of the class (or of a child class) is its method table: one field per
  method, in the order of the source. No method of the class reads \<^verbatim>\<open>self\<close>, so the
  fields take the remaining parameters only.
\<close>

record Commands =
  list_pkgs :: "string list"
  list_foreign_pkgs_versioned :: "string list"
  install_pkgs :: "string list \<Rightarrow> string list"
  install_files :: "string list \<Rightarrow> string list"
  set_as_explicitly_installed :: "string list \<Rightarrow> string list"
  install_deps :: "string list \<Rightarrow> string list"
  is_installable :: "string \<Rightarrow> string list"
  upgrade :: "string list"
  remove :: "string list \<Rightarrow> string list"
  enable_units :: "string list \<Rightarrow> string list"
  disable_units :: "string list \<Rightarrow> string list"
  enable_user_units :: "string list \<Rightarrow> string list"
  disable_user_units :: "string list \<Rightarrow> string list"
  compare_versions :: "string \<Rightarrow> string \<Rightarrow> string list"
  git_clone :: "string \<Rightarrow> string \<Rightarrow> string list"
  git_diff :: "string \<Rightarrow> string list"
  git_get_commit_id :: "string list"
  review_file :: "string \<Rightarrow> string list"
  make_chroot :: "string \<Rightarrow> string list \<Rightarrow> string list"
  make_chroot_pkg :: "string \<Rightarrow> string \<Rightarrow> string list \<Rightarrow> string list"

text \<open>
  The loop of \<^verbatim>\<open>make_chroot_pkg\<close>:
  \<^verbatim>\<open>for pkgfile in pkgfiles_to_install: makechrootpkg_cmd += ["-I", pkgfile]\<close>.
  The first argument is the vector built so far.
\<close>

fun make_chroot_pkg_loop :: "string list \<Rightarrow> string list \<Rightarrow> string list" where
  "make_chroot_pkg_loop makechrootpkg_cmd [] = makechrootpkg_cmd"
| "make_chroot_pkg_loop makechrootpkg_cmd (pkgfile # rest) =
     make_chroot_pkg_loop (makechrootpkg_cmd @ [''-I'', pkgfile]) rest"

text \<open>The default commands: the bodies of the methods of the class, as written.\<close>

definition Commands_default :: Commands where
  "Commands_default = \<lparr>
     list_pkgs = [''pacman'', ''-Qeq'', ''--color=never''],
     list_foreign_pkgs_versioned = [''pacman'', ''-Qm'', ''--color=never''],
     install_pkgs = (\<lambda>pkgs. [''pacman'', ''-S'', ''--asexplicit''] @ pkgs),
     install_files = (\<lambda>pkg_files. [''pacman'', ''-U'', ''--asdeps''] @ pkg_files),
     set_as_explicitly_installed = (\<lambda>pkgs. [''pacman'', ''-D'', ''--asexplicit''] @ pkgs),
     install_deps = (\<lambda>deps. [''pacman'', ''-S'', ''--needed'', ''--asdeps''] @ deps),
     is_installable = (\<lambda>pkg. [''pacman'', ''-Sddp'', pkg]),
     upgrade = [''pacman'', ''-Syu''],
     remove = (\<lambda>pkgs. [''pacman'', ''-Rs''] @ pkgs),
     enable_units = (\<lambda>units. [''systemctl'', ''enable'', ''--now'', ''--quiet''] @ units),
     disable_units = (\<lambda>units. [''systemctl'', ''disable'', ''--quiet''] @ units),
     enable_user_units =
       (\<lambda>units. [''systemctl'', ''enable'', ''--now'', ''--quiet'', ''--user''] @ units),
     disable_user_units = (\<lambda>units. [''systemctl'', ''disable'', ''--quiet''] @ units),
     compare_versions =
       (\<lambda>installed_version new_version. [''vercmp'', installed_version, new_version]),
     git_clone = (\<lambda>repo dest. [''git'', ''clone'', repo, dest]),
     git_diff = (\<lambda>from_commit. [''git'', ''diff'', from_commit]),
     git_get_commit_id = [''git'', ''rev-parse'', ''HEAD''],
     review_file = (\<lambda>file. [''less'', file]),
     make_chroot = (\<lambda>chroot_root_dir with_pkgs. [''mkarchroot'', chroot_root_dir] @ with_pkgs),
     make_chroot_pkg =
       (\<lambda>chroot_dir user pkgfiles_to_install.
          make_chroot_pkg_loop [''makechrootpkg'', ''-r'', chroot_dir, ''-U'', user]
            pkgfiles_to_install)
   \<rparr>"

subsection \<open>The module-level variables\<close>

text \<open>
  The variables of the module, with \<^verbatim>\<open>typing.Optional[int]\<close> as \<^typ>\<open>int option\<close>
  (\<^verbatim>\<open>None\<close> is \<^term>\<open>None\<close>), and their values when the module has been loaded.
\<close>

record config =
  commands :: Commands
  debug_output :: bool
  quiet_output :: bool
  valid_pkgexts :: "string list"
  makepkg_user :: string
  build_dir :: string
  pkg_cache_dir :: string
  aur_rpc_timeout :: "int option"

definition config_init :: config where
  "config_init = \<lparr>
     commands = Commands_default,
     debug_output = False,
     quiet_output = False,
     valid_pkgexts = [
       ''.pkg.tar'',
       ''.pkg.tar.gz'',
       ''.pkg.tar.bz2'',
       ''.pkg.tar.xz'',
       ''.pkg.tar.zst'',
       ''.pkg.tar.lzo'',
       ''.pkg.tar.lrz'',
       ''.pkg.tar.lz4'',
       ''.pkg.tar.lz'',
       ''.pkg.tar.Z''
     ],
     makepkg_user = ''nobody'',
     build_dir = ''/tmp/decman/build'',
     pkg_cache_dir = ''/var/cache/decman'',
     aur_rpc_timeout = Some 30
   \<rparr>"

subsection \<open>Calling a method of the installed commands\<close>

text \<open>
  A caller writes \<^verbatim>\<open>decman.config.commands.install_pkgs(pkgs)\<close>: it names a method and
  gives its arguments, with the types of the method's signature. A call is that
  pair; \<open>invoke\<close> looks the method up in the instance and applies it.
\<close>

datatype op_name =
    ListPkgs | ListForeignPkgsVersioned | InstallPkgs | InstallFiles
  | SetAsExplicitlyInstalled | InstallDeps | IsInstallable | Upgrade | Remove
  | EnableUnits | DisableUnits | EnableUserUnits | DisableUserUnits
  | CompareVersions | GitClone | GitDiff | GitGetCommitId | ReviewFile
  | MakeChroot | MakeChrootPkg

datatype call =
    Call_list_pkgs
  | Call_list_foreign_pkgs_versioned
  | Call_install_pkgs "string list"
  | Call_install_files "string list"
  | Call_set_as_explicitly_installed "string list"
  | Call_install_deps "string list"
  | Call_is_installable string
  | Call_upgrade
  | Call_remove "string list"
  | Call_enable_units "string list"
  | Call_disable_units "string list"
  | Call_enable_user_units "string list"
  | Call_disable_user_units "string list"
  | Call_compare_versions string string
  | Call_git_clone string string
  | Call_git_diff string
  | Call_git_get_commit_id
  | Call_review_file string
  | Call_make_chroot string "string list"
  | Call_make_chroot_pkg string string "string list"

fun op_of :: "call \<Rightarrow> op_name" where
  "op_of Call_list_pkgs = ListPkgs"
| "op_of Call_list_foreign_pkgs_versioned = ListForeignPkgsVersioned"
| "op_of (Call_install_pkgs pkgs) = InstallPkgs"
| "op_of (Call_install_files pkg_files) = InstallFiles"
| "op_of (Call_set_as_explicitly_installed pkgs) = SetAsExplicitlyInstalled"
| "op_of (Call_install_deps deps) = InstallDeps"
| "op_of (Call_is_installable pkg) = IsInstallable"
| "op_of Call_upgrade = Upgrade"
| "op_of (Call_remove pkgs) = Remove"
| "op_of (Call_enable_units units) = EnableUnits"
| "op_of (Call_disable_units units) = DisableUnits"
| "op_of (Call_enable_user_units units) = EnableUserUnits"
| "op_of (Call_disable_user_units units) = DisableUserUnits"
| "op_of (Call_compare_versions installed_version new_version) = CompareVersions"
| "op_of (Call_git_clone repo dest) = GitClone"
| "op_of (Call_git_diff from_commit) = GitDiff"
| "op_of Call_git_get_commit_id = GitGetCommitId"
| "op_of (Call_review_file file) = ReviewFile"
| "op_of (Call_make_chroot chroot_root_dir with_pkgs) = MakeChroot"
| "op_of (Call_make_chroot_pkg chroot_dir user pkgfiles_to_install) = MakeChrootPkg"

fun invoke :: "Commands \<Rightarrow> call \<Rightarrow> string list" where
  "invoke c Call_list_pkgs = list_pkgs c"
| "invoke c Call_list_foreign_pkgs_versioned = list_foreign_pkgs_versioned c"
| "invoke c (Call_install_pkgs pkgs) = install_pkgs c pkgs"
| "invoke c (Call_install_files pkg_files) = install_files c pkg_files"
| "invoke c (Call_set_as_explicitly_installed pkgs) = set_as_explicitly_installed c pkgs"
| "invoke c (Call_install_deps deps) = install_deps c deps"
| "invoke c (Call_is_installable pkg) = is_installable c pkg"
| "invoke c Call_upgrade = upgrade c"
| "invoke c (Call_remove pkgs) = remove c pkgs"
| "invoke c (Call_enable_units units) = enable_units c units"
| "invoke c (Call_disable_units units) = disable_units c units"
| "invoke c (Call_enable_user_units units) = enable_user_units c units"
| "invoke c (Call_disable_user_units units) = disable_user_units c units"
| "invoke c (Call_compare_versions installed_version new_version) =
     compare_versions c installed_version new_version"
| "invoke c (Call_git_clone repo dest) = git_clone c repo dest"
| "invoke c (Call_git_diff from_commit) = git_diff c from_commit"
| "invoke c Call_git_get_commit_id = git_get_commit_id c"
| "invoke c (Call_review_file file) = review_file c file"
| "invoke c (Call_make_chroot chroot_root_dir with_pkgs) =
     make_chroot c chroot_root_dir with_pkgs"
| "invoke c (Call_make_chroot_pkg chroot_dir user pkgfiles_to_install) =
     make_chroot_pkg c chroot_dir user pkgfiles_to_install"

text \<open>
  The external program each operation is meant to start: the table the first token
  of every vector is compared with.
\<close>

fun external_program :: "op_name \<Rightarrow> string" where
  "external_program EnableUnits = ''systemctl''"
| "external_program DisableUnits = ''systemctl''"
| "external_program EnableUserUnits = ''systemctl''"
| "external_program DisableUserUnits = ''systemctl''"
| "external_program CompareVersions = ''vercmp''"
| "external_program GitClone = ''git''"
| "external_program GitDiff = ''git''"
| "external_program GitGetCommitId = ''git''"
| "external_program ReviewFile = ''less''"
| "external_program MakeChroot = ''mkarchroot''"
| "external_program MakeChrootPkg = ''makechrootpkg''"
| "external_program _ = ''pacman''"

subsection \<open>Child classes that override one method\<close>

text \<open>
  \<^verbatim>\<open>class MyCommands(Commands): def install_pkgs(self, pkgs): ...\<close> inherits every
  method it does not define. Its instance is the parent's method table with the one
  field replaced; the new body is any function of the method's type.
\<close>

datatype method_override =
    Def_list_pkgs "string list"
  | Def_list_foreign_pkgs_versioned "string list"
  | Def_install_pkgs "string list \<Rightarrow> string list"
  | Def_install_files "string list \<Rightarrow> string list"
  | Def_set_as_explicitly_installed "string list \<Rightarrow> string list"
  | Def_install_deps "string list \<Rightarrow> string list"
  | Def_is_installable "string \<Rightarrow> string list"
  | Def_upgrade "string list"
  | Def_remove "string list \<Rightarrow> string list"
  | Def_enable_units "string list \<Rightarrow> string list"
  | Def_disable_units "string list \<Rightarrow> string list"
  | Def_enable_user_units "string list \<Rightarrow> string list"
  | Def_disable_user_units "string list \<Rightarrow> string list"
  | Def_compare_versions "string \<Rightarrow> string \<Rightarrow> string list"
  | Def_git_clone "string \<Rightarrow> string \<Rightarrow> string list"
  | Def_git_diff "string \<Rightarrow> string list"
  | Def_git_get_commit_id "string list"
  | Def_review_file "string \<Rightarrow> string list"
  | Def_make_chroot "string \<Rightarrow> string list \<Rightarrow> string list"
  | Def_make_chroot_pkg "string \<Rightarrow> string \<Rightarrow> string list \<Rightarrow> string list"

fun overridden :: "method_override \<Rightarrow> op_name" where
  "overridden (Def_list_pkgs f) = ListPkgs"
| "overridden (Def_list_foreign_pkgs_versioned f) = ListForeignPkgsVersioned"
| "overridden (Def_install_pkgs f) = InstallPkgs"
| "overridden (Def_install_files f) = InstallFiles"
| "overridden (Def_set_as_explicitly_installed f) = SetAsExplicitlyInstalled"
| "overridden (Def_install_deps f) = InstallDeps"
| "overridden (Def_is_installable f) = IsInstallable"
| "overridden (Def_upgrade f) = Upgrade"
| "overridden (Def_remove f) = Remove"
| "overridden (Def_enable_units f) = EnableUnits"
| "overridden (Def_disable_units f) = DisableUnits"
| "overridden (Def_enable_user_units f) = EnableUserUnits"
| "overridden (Def_disable_user_units f) = DisableUserUnits"
| "overridden (Def_compare_versions f) = CompareVersions"
| "overridden (Def_git_clone f) = GitClone"
| "overridden (Def_git_diff f) = GitDiff"
| "overridden (Def_git_get_commit_id f) = GitGetCommitId"
| "overridden (Def_review_file f) = ReviewFile"
| "overridden (Def_make_chroot f) = MakeChroot"
| "overridden (Def_make_chroot_pkg f) = MakeChrootPkg"

fun override_method :: "Commands \<Rightarrow> method_override \<Rightarrow> Commands" where
  "override_method c (Def_list_pkgs f) = c\<lparr>list_pkgs := f\<rparr>"
| "override_method c (Def_list_foreign_pkgs_versioned f) = c\<lparr>list_foreign_pkgs_versioned := f\<rparr>"
| "override_method c (Def_install_pkgs f) = c\<lparr>install_pkgs := f\<rparr>"
| "override_method c (Def_install_files f) = c\<lparr>install_files := f\<rparr>"
| "override_method c (Def_set_as_explicitly_installed f) = c\<lparr>set_as_explicitly_installed := f\<rparr>"
| "override_method c (Def_install_deps f) = c\<lparr>install_deps := f\<rparr>"
| "override_method c (Def_is_installable f) = c\<lparr>is_installable := f\<rparr>"
| "override_method c (Def_upgrade f) = c\<lparr>upgrade := f\<rparr>"
| "override_method c (Def_remove f) = c\<lparr>remove := f\<rparr>"
| "override_method c (Def_enable_units f) = c\<lparr>enable_units := f\<rparr>"
| "override_method c (Def_disable_units f) = c\<lparr>disable_units := f\<rparr>"
| "override_method c (Def_enable_user_units f) = c\<lparr>enable_user_units := f\<rparr>"
| "override_method c (Def_disable_user_units f) = c\<lparr>disable_user_units := f\<rparr>"
| "override_method c (Def_compare_versions f) = c\<lparr>compare_versions := f\<rparr>"
| "override_method c (Def_git_clone f) = c\<lparr>git_clone := f\<rparr>"
| "override_method c (Def_git_diff f) = c\<lparr>git_diff := f\<rparr>"
| "override_method c (Def_git_get_commit_id f) = c\<lparr>git_get_commit_id := f\<rparr>"
| "override_method c (Def_review_file f) = c\<lparr>review_file := f\<rparr>"
| "override_method c (Def_make_chroot f) = c\<lparr>make_chroot := f\<rparr>"
| "override_method c (Def_make_chroot_pkg f) = c\<lparr>make_chroot_pkg := f\<rparr>"

text \<open>
  The startup customisation \<^verbatim>\<open>decman.config.commands = MyCommands()\<close>, and what a
  caller then gets from \<^verbatim>\<open>decman.config.commands.m(...)\<close>.
\<close>

definition set_commands :: "Commands \<Rightarrow> config \<Rightarrow> config" where
  "set_commands c cfg = cfg\<lparr>commands := c\<rparr>"

definition run :: "config \<Rightarrow> call \<Rightarrow> string list" where
  "run cfg cl = invoke (commands cfg) cl"

subsection \<open>The list parameter of a call\<close>

text \<open>
  Eleven methods take a \<^verbatim>\<open>list[str]\<close>. \<open>list_arg\<close> reads that argument of a call,
  \<open>with_list_arg\<close> is the same call with another list in its place (a call of one of
  the nine other methods is left as it is), and \<open>tokens_per_item\<close> is the number of
  tokens the method emits for each element of the list: \<^verbatim>\<open>make_chroot_pkg\<close> puts the
  flag \<^verbatim>\<open>-I\<close> before every element, the others emit the element alone.
\<close>

fun list_arg :: "call \<Rightarrow> string list option" where
  "list_arg (Call_install_pkgs pkgs) = Some pkgs"
| "list_arg (Call_install_files pkg_files) = Some pkg_files"
| "list_arg (Call_set_as_explicitly_installed pkgs) = Some pkgs"
| "list_arg (Call_install_deps deps) = Some deps"
| "list_arg (Call_remove pkgs) = Some pkgs"
| "list_arg (Call_enable_units units) = Some units"
| "list_arg (Call_disable_units units) = Some units"
| "list_arg (Call_enable_user_units units) = Some units"
| "list_arg (Call_disable_user_units units) = Some units"
| "list_arg (Call_make_chroot chroot_root_dir with_pkgs) = Some with_pkgs"
| "list_arg (Call_make_chroot_pkg chroot_dir user pkgfiles_to_install) =
     Some pkgfiles_to_install"
| "list_arg _ = None"

fun with_list_arg :: "call \<Rightarrow> string list \<Rightarrow> call" where
  "with_list_arg (Call_install_pkgs pkgs) xs = Call_install_pkgs xs"
| "with_list_arg (Call_install_files pkg_files) xs = Call_install_files xs"
| "with_list_arg (Call_set_as_explicitly_installed pkgs) xs =
     Call_set_as_explicitly_installed xs"
| "with_list_arg (Call_install_deps deps) xs = Call_install_deps xs"
| "with_list_arg (Call_remove pkgs) xs = Call_remove xs"
| "with_list_arg (Call_enable_units units) xs = Call_enable_units xs"
| "with_list_arg (Call_disable_units units) xs = Call_disable_units xs"
| "with_list_arg (Call_enable_user_units units) xs = Call_enable_user_units xs"
| "with_list_arg (Call_disable_user_units units) xs = Call_disable_user_units xs"
| "with_list_arg (Call_make_chroot chroot_root_dir with_pkgs) xs =
     Call_make_chroot chroot_root_dir xs"
| "with_list_arg (Call_make_chroot_pkg chroot_dir user pkgfiles_to_install) xs =
     Call_make_chroot_pkg chroot_dir user xs"
| "with_list_arg cl xs = cl"

fun tokens_per_item :: "op_name \<Rightarrow> nat" where
  "tokens_per_item MakeChrootPkg = 2"
| "tokens_per_item _ = 1"

subsection \<open>Recognising a package file by its extension\<close>

text \<open>
  Modelled from the spec: the test that a file name ends with one of the recognised
  extensions. \<^verbatim>\<open>decman/config.py\<close> only holds the list \<^verbatim>\<open>valid_pkgexts\<close>; the
  code that tests a name against it is in the modules that read the list, which are
  not part of the sources at hand. The spec's words: a string is recognised when it
  has one of the listed suffixes, and is not recognised otherwise.
\<close>

definition has_valid_pkgext :: "string list \<Rightarrow> string \<Rightarrow> bool" where
  "has_valid_pkgext exts name = list_ex (\<lambda>ext. suffix ext name) exts"

subsection \<open>The methods on arbitrary Python objects\<close>

text \<open>
  The annotations of the methods are not enforced when the program runs: a method can
  be handed any objects, and any number of them. The following evaluates the bodies
  as Python does on such arguments, with the exceptions as values.
  \<^item> Calling a method with the wrong number of arguments raises \<^verbatim>\<open>TypeError\<close>.
  \<^item> \<^verbatim>\<open>[...] + x\<close> is the concatenation when \<^verbatim>\<open>x\<close> is a list and raises
    \<^verbatim>\<open>TypeError\<close> when it is \<^verbatim>\<open>None\<close>, an \<^verbatim>\<open>int\<close> or a \<^verbatim>\<open>str\<close>.
  \<^item> A list display \<^verbatim>\<open>["less", file]\<close> holds whatever object \<^verbatim>\<open>file\<close> is.
  \<^item> \<^verbatim>\<open>for pkgfile in x\<close> runs over the elements of a list and over the
    one-character strings of a \<^verbatim>\<open>str\<close>, and raises \<^verbatim>\<open>TypeError\<close> on \<^verbatim>\<open>None\<close>
    and on an \<^verbatim>\<open>int\<close>; \<^verbatim>\<open>cmd += ["-I", pkgfile]\<close> extends a list by a list and
    cannot fail.
  Every character of a \<^typ>\<open>string\<close> stands for one code point of the Python \<^verbatim>\<open>str\<close>.
\<close>

datatype py_value = PyNone | PyInt int | PyStr string | PyList "py_value list"

datatype py_error = TypeError

fun py_list_add :: "py_value list \<Rightarrow> py_value \<Rightarrow> py_error + py_value" where
  "py_list_add xs (PyList ys) = Inr (PyList (xs @ ys))"
| "py_list_add xs y = Inl TypeError"

fun py_iter :: "py_value \<Rightarrow> py_error + py_value list" where
  "py_iter (PyList ys) = Inr ys"
| "py_iter (PyStr s) = Inr (map (\<lambda>ch. PyStr [ch]) s)"
| "py_iter y = Inl TypeError"

fun py_make_chroot_pkg_loop :: "py_value list \<Rightarrow> py_value list \<Rightarrow> py_value list" where
  "py_make_chroot_pkg_loop makechrootpkg_cmd [] = makechrootpkg_cmd"
| "py_make_chroot_pkg_loop makechrootpkg_cmd (pkgfile # rest) =
     py_make_chroot_pkg_loop (makechrootpkg_cmd @ [PyStr ''-I'', pkgfile]) rest"

text \<open>Binding the arguments of a call to the parameters after \<^verbatim>\<open>self\<close>.\<close>

fun params0 :: "py_error + py_value \<Rightarrow> py_value list \<Rightarrow> py_error + py_value" where
  "params0 body [] = body"
| "params0 body args = Inl TypeError"

fun params1 ::
  "(py_value \<Rightarrow> py_error + py_value) \<Rightarrow> py_value list \<Rightarrow> py_error + py_value" where
  "params1 body [a] = body a"
| "params1 body args = Inl TypeError"

fun params2 ::
  "(py_value \<Rightarrow> py_value \<Rightarrow> py_error + py_value) \<Rightarrow> py_value list \<Rightarrow> py_error + py_value"
  where
  "params2 body [a, b] = body a b"
| "params2 body args = Inl TypeError"

fun params3 ::
  "(py_value \<Rightarrow> py_value \<Rightarrow> py_value \<Rightarrow> py_error + py_value) \<Rightarrow> py_value list
     \<Rightarrow> py_error + py_value" where
  "params3 body [a, b, c] = body a b c"
| "params3 body args = Inl TypeError"

fun py_call :: "op_name \<Rightarrow> py_value list \<Rightarrow> py_error + py_value" where
  "py_call ListPkgs =
     params0 (Inr (PyList [PyStr ''pacman'', PyStr ''-Qeq'', PyStr ''--color=never'']))"
| "py_call ListForeignPkgsVersioned =
     params0 (Inr (PyList [PyStr ''pacman'', PyStr ''-Qm'', PyStr ''--color=never'']))"
| "py_call InstallPkgs =
     params1 (\<lambda>pkgs. py_list_add [PyStr ''pacman'', PyStr ''-S'', PyStr ''--asexplicit''] pkgs)"
| "py_call InstallFiles =
     params1 (\<lambda>pkg_files.
       py_list_add [PyStr ''pacman'', PyStr ''-U'', PyStr ''--asdeps''] pkg_files)"
| "py_call SetAsExplicitlyInstalled =
     params1 (\<lambda>pkgs. py_list_add [PyStr ''pacman'', PyStr ''-D'', PyStr ''--asexplicit''] pkgs)"
| "py_call InstallDeps =
     params1 (\<lambda>deps.
       py_list_add [PyStr ''pacman'', PyStr ''-S'', PyStr ''--needed'', PyStr ''--asdeps'']
         deps)"
| "py_call IsInstallable =
     params1 (\<lambda>pkg. Inr (PyList [PyStr ''pacman'', PyStr ''-Sddp'', pkg]))"
| "py_call Upgrade = params0 (Inr (PyList [PyStr ''pacman'', PyStr ''-Syu'']))"
| "py_call Remove = params1 (\<lambda>pkgs. py_list_add [PyStr ''pacman'', PyStr ''-Rs''] pkgs)"
| "py_call EnableUnits =
     params1 (\<lambda>units.
       py_list_add [PyStr ''systemctl'', PyStr ''enable'', PyStr ''--now'', PyStr ''--quiet'']
         units)"
| "py_call DisableUnits =
     params1 (\<lambda>units.
       py_list_add [PyStr ''systemctl'', PyStr ''disable'', PyStr ''--quiet''] units)"
| "py_call EnableUserUnits =
     params1 (\<lambda>units.
       py_list_add [PyStr ''systemctl'', PyStr ''enable'', PyStr ''--now'', PyStr ''--quiet'',
         PyStr ''--user''] units)"
| "py_call DisableUserUnits =
     params1 (\<lambda>units.
       py_list_add [PyStr ''systemctl'', PyStr ''disable'', PyStr ''--quiet''] units)"
| "py_call CompareVersions =
     params2 (\<lambda>installed_version new_version.
       Inr (PyList [PyStr ''vercmp'', installed_version, new_version]))"
| "py_call GitClone =
     params2 (\<lambda>repo dest. Inr (PyList [PyStr ''git'', PyStr ''clone'', repo, dest]))"
| "py_call GitDiff =
     params1 (\<lambda>from_commit. Inr (PyList [PyStr ''git'', PyStr ''diff'', from_commit]))"
| "py_call GitGetCommitId =
     params0 (Inr (PyList [PyStr ''git'', PyStr ''rev-parse'', PyStr ''HEAD'']))"
| "py_call ReviewFile = params1 (\<lambda>file. Inr (PyList [PyStr ''less'', file]))"
| "py_call MakeChroot =
     params2 (\<lambda>chroot_root_dir with_pkgs.
       py_list_add [PyStr ''mkarchroot'', chroot_root_dir] with_pkgs)"
| "py_call MakeChrootPkg =
     params3 (\<lambda>chroot_dir user pkgfiles_to_install.
       case py_iter pkgfiles_to_install of
         Inl e \<Rightarrow> Inl e
       | Inr items \<Rightarrow>
           Inr (PyList (py_make_chroot_pkg_loop
             [PyStr ''makechrootpkg'', PyStr ''-r'', chroot_dir, PyStr ''-U'', user] items)))"

text \<open>
  The annotated signatures, and the arguments that have the annotated types:
  \<^verbatim>\<open>str\<close> is a string, \<^verbatim>\<open>list[str]\<close> is a list all of whose elements are strings
  (the empty list among them).
\<close>

datatype py_type = T_str | T_list_str

fun signature_of :: "op_name \<Rightarrow> py_type list" where
  "signature_of ListPkgs = []"
| "signature_of ListForeignPkgsVersioned = []"
| "signature_of InstallPkgs = [T_list_str]"
| "signature_of InstallFiles = [T_list_str]"
| "signature_of SetAsExplicitlyInstalled = [T_list_str]"
| "signature_of InstallDeps = [T_list_str]"
| "signature_of IsInstallable = [T_str]"
| "signature_of Upgrade = []"
| "signature_of Remove = [T_list_str]"
| "signature_of EnableUnits = [T_list_str]"
| "signature_of DisableUnits = [T_list_str]"
| "signature_of EnableUserUnits = [T_list_str]"
| "signature_of DisableUserUnits = [T_list_str]"
| "signature_of CompareVersions = [T_str, T_str]"
| "signature_of GitClone = [T_str, T_str]"
| "signature_of GitDiff = [T_str]"
| "signature_of GitGetCommitId = []"
| "signature_of ReviewFile = [T_str]"
| "signature_of MakeChroot = [T_str, T_list_str]"
| "signature_of MakeChrootPkg = [T_str, T_str, T_list_str]"

fun is_str :: "py_value \<Rightarrow> bool" where
  "is_str (PyStr s) = True"
| "is_str v = False"

fun has_type :: "py_type \<Rightarrow> py_value \<Rightarrow> bool" where
  "has_type T_str v = is_str v"
| "has_type T_list_str (PyList vs) = list_all is_str vs"
| "has_type T_list_str v = False"

definition well_typed :: "op_name \<Rightarrow> py_value list \<Rightarrow> bool" where
  "well_typed m args = list_all2 has_type (signature_of m) args"

text \<open>The objects a typed call passes.\<close>

fun py_args :: "call \<Rightarrow> py_value list" where
  "py_args Call_list_pkgs = []"
| "py_args Call_list_foreign_pkgs_versioned = []"
| "py_args (Call_install_pkgs pkgs) = [PyList (map PyStr pkgs)]"
| "py_args (Call_install_files pkg_files) = [PyList (map PyStr pkg_files)]"
| "py_args (Call_set_as_explicitly_installed pkgs) = [PyList (map PyStr pkgs)]"
| "py_args (Call_install_deps deps) = [PyList (map PyStr deps)]"
| "py_args (Call_is_installable pkg) = [PyStr pkg]"
| "py_args Call_upgrade = []"
| "py_args (Call_remove pkgs) = [PyList (map PyStr pkgs)]"
| "py_args (Call_enable_units units) = [PyList (map PyStr units)]"
| "py_args (Call_disable_units units) = [PyList (map PyStr units)]"
| "py_args (Call_enable_user_units units) = [PyList (map PyStr units)]"
| "py_args (Call_disable_user_units units) = [PyList (map PyStr units)]"
| "py_args (Call_compare_versions installed_version new_version) =
     [PyStr installed_version, PyStr new_version]"
| "py_args (Call_git_clone repo dest) = [PyStr repo, PyStr dest]"
| "py_args (Call_git_diff from_commit) = [PyStr from_commit]"
| "py_args Call_git_get_commit_id = []"
| "py_args (Call_review_file file) = [PyStr file]"
| "py_args (Call_make_chroot chroot_root_dir with_pkgs) =
     [PyStr chroot_root_dir, PyList (map PyStr with_pkgs)]"
| "py_args (Call_make_chroot_pkg chroot_dir user pkgfiles_to_install) =
     [PyStr chroot_dir, PyStr user, PyList (map PyStr pkgfiles_to_install)]"

section \<open>Properties of the default commands\<close>

subsection \<open>Auxiliary facts\<close>

text \<open>
  The loop of \<^verbatim>\<open>make_chroot_pkg\<close> appends the pair \<^verbatim>\<open>-I\<close>, file for every file, in the order
  of the list.
\<close>

lemma make_chroot_pkg_loop_concat:
  "make_chroot_pkg_loop acc fs = acc @ concat (map (\<lambda>f. [''-I'', f]) fs)"
  by (induction fs arbitrary: acc) simp_all

lemma flagged_length: "length (concat (map (\<lambda>x. [f, x]) xs)) = 2 * length xs"
  by (induction xs) simp_all

lemma flagged_nth:
  "i < length xs \<Longrightarrow>
     concat (map (\<lambda>x. [f, x]) xs) ! (2 * i) = f
     \<and> concat (map (\<lambda>x. [f, x]) xs) ! (2 * i + 1) = xs ! i"
proof (induction xs arbitrary: i)
  case Nil
  then show ?case by simp
next
  case (Cons x xs)
  show ?case
  proof (cases i)
    case 0
    then show ?thesis by simp
  next
    case (Suc j)
    with Cons.prems have "j < length xs" by simp
    then have "concat (map (\<lambda>x. [f, x]) xs) ! (2 * j) = f
               \<and> concat (map (\<lambda>x. [f, x]) xs) ! (2 * j + 1) = xs ! j"
      by (rule Cons.IH)
    with Suc show ?thesis by simp
  qed
qed

text \<open>
  Replacing one method leaves the result of calling any other method as it was, for
  every parent instance.
\<close>

lemma invoke_override_other:
  "overridden ov \<noteq> op_of cl \<Longrightarrow> invoke (override_method c ov) cl = invoke c cl"
  by (cases ov; cases cl; simp)

text \<open>
  On the objects of a typed call the bodies evaluated on Python objects return, without
  an exception, the vector of the typed method table.
\<close>

lemma py_loop_map:
  "py_make_chroot_pkg_loop (map PyStr acc) (map PyStr fs)
     = map PyStr (make_chroot_pkg_loop acc fs)"
proof (induction fs arbitrary: acc)
  case Nil
  show ?case by simp
next
  case (Cons f fs)
  have "py_make_chroot_pkg_loop (map PyStr (acc @ [''-I'', f])) (map PyStr fs)
          = map PyStr (make_chroot_pkg_loop (acc @ [''-I'', f]) fs)"
    by (rule Cons.IH)
  then show ?case by simp
qed

lemma py_call_typed:
  "py_call (op_of cl) (py_args cl) = Inr (PyList (map PyStr (invoke Commands_default cl)))"
  by (cases cl) (simp_all add: Commands_default_def py_loop_map [symmetric])

text \<open>
  Arguments that have the annotated types are the objects of a typed call.
\<close>

lemma is_str_PyStr: "is_str v \<Longrightarrow> \<exists>s. v = PyStr s"
  by (cases v) simp_all

lemma list_all_is_str: "list_all is_str vs \<Longrightarrow> \<exists>xs. vs = map PyStr xs"
proof (induction vs)
  case Nil
  show ?case by simp
next
  case (Cons v vs)
  then obtain s xs where "v = PyStr s" and "vs = map PyStr xs"
    using is_str_PyStr by fastforce
  then have "v # vs = map PyStr (s # xs)" by simp
  then show ?case by (rule exI)
qed

lemma has_type_list_str: "has_type T_list_str v \<Longrightarrow> \<exists>xs. v = PyList (map PyStr xs)"
  by (cases v) (auto dest: list_all_is_str)

lemma args_none: "list_all2 has_type [] args \<Longrightarrow> args = []"
  by simp

lemma args_list:
  "list_all2 has_type [T_list_str] args \<Longrightarrow> \<exists>xs. args = [PyList (map PyStr xs)]"
  by (auto simp: list_all2_Cons1 dest!: has_type_list_str)

lemma args_str: "list_all2 has_type [T_str] args \<Longrightarrow> \<exists>s. args = [PyStr s]"
  by (auto simp: list_all2_Cons1 dest!: is_str_PyStr)

lemma args_str_str:
  "list_all2 has_type [T_str, T_str] args \<Longrightarrow> \<exists>s t. args = [PyStr s, PyStr t]"
  by (auto simp: list_all2_Cons1 dest!: is_str_PyStr)

lemma args_str_list:
  "list_all2 has_type [T_str, T_list_str] args
     \<Longrightarrow> \<exists>s xs. args = [PyStr s, PyList (map PyStr xs)]"
  by (auto simp: list_all2_Cons1 dest!: is_str_PyStr has_type_list_str)

lemma args_str_str_list:
  "list_all2 has_type [T_str, T_str, T_list_str] args
     \<Longrightarrow> \<exists>s t xs. args = [PyStr s, PyStr t, PyList (map PyStr xs)]"
  by (auto simp: list_all2_Cons1 dest!: is_str_PyStr has_type_list_str)

lemma well_typed_call:
  assumes wt: "well_typed m args"
  shows "\<exists>cl. op_of cl = m \<and> py_args cl = args"
proof (cases m)
  case ListPkgs
  with wt have "args = []"
    by (simp add: well_typed_def)
  with ListPkgs have "op_of Call_list_pkgs = m \<and> py_args Call_list_pkgs = args"
    by simp
  then show ?thesis by (rule exI)
next
  case ListForeignPkgsVersioned
  with wt have "args = []"
    by (simp add: well_typed_def)
  with ListForeignPkgsVersioned have "op_of Call_list_foreign_pkgs_versioned = m \<and> py_args Call_list_foreign_pkgs_versioned = args"
    by simp
  then show ?thesis by (rule exI)
next
  case InstallPkgs
  with wt obtain xs where "args = [PyList (map PyStr xs)]"
    using args_list [of args] by (auto simp: well_typed_def)
  with InstallPkgs have "op_of (Call_install_pkgs xs) = m \<and> py_args (Call_install_pkgs xs) = args"
    by simp
  then show ?thesis by (rule exI)
next
  case InstallFiles
  with wt obtain xs where "args = [PyList (map PyStr xs)]"
    using args_list [of args] by (auto simp: well_typed_def)
  with InstallFiles have "op_of (Call_install_files xs) = m \<and> py_args (Call_install_files xs) = args"
    by simp
  then show ?thesis by (rule exI)
next
  case SetAsExplicitlyInstalled
  with wt obtain xs where "args = [PyList (map PyStr xs)]"
    using args_list [of args] by (auto simp: well_typed_def)
  with SetAsExplicitlyInstalled have "op_of (Call_set_as_explicitly_installed xs) = m \<and> py_args (Call_set_as_explicitly_installed xs) = args"
    by simp
  then show ?thesis by (rule exI)
next
  case InstallDeps
  with wt obtain xs where "args = [PyList (map PyStr xs)]"
    using args_list [of args] by (auto simp: well_typed_def)
  with InstallDeps have "op_of (Call_install_deps xs) = m \<and> py_args (Call_install_deps xs) = args"
    by simp
  then show ?thesis by (rule exI)
next
  case IsInstallable
  with wt obtain s where "args = [PyStr s]"
    using args_str [of args] by (auto simp: well_typed_def)
  with IsInstallable have "op_of (Call_is_installable s) = m \<and> py_args (Call_is_installable s) = args"
    by simp
  then show ?thesis by (rule exI)
next
  case Upgrade
  with wt have "args = []"
    by (simp add: well_typed_def)
  with Upgrade have "op_of Call_upgrade = m \<and> py_args Call_upgrade = args"
    by simp
  then show ?thesis by (rule exI)
next
  case Remove
  with wt obtain xs where "args = [PyList (map PyStr xs)]"
    using args_list [of args] by (auto simp: well_typed_def)
  with Remove have "op_of (Call_remove xs) = m \<and> py_args (Call_remove xs) = args"
    by simp
  then show ?thesis by (rule exI)
next
  case EnableUnits
  with wt obtain xs where "args = [PyList (map PyStr xs)]"
    using args_list [of args] by (auto simp: well_typed_def)
  with EnableUnits have "op_of (Call_enable_units xs) = m \<and> py_args (Call_enable_units xs) = args"
    by simp
  then show ?thesis by (rule exI)
next
  case DisableUnits
  with wt obtain xs where "args = [PyList (map PyStr xs)]"
    using args_list [of args] by (auto simp: well_typed_def)
  with DisableUnits have "op_of (Call_disable_units xs) = m \<and> py_args (Call_disable_units xs) = args"
    by simp
  then show ?thesis by (rule exI)
next
  case EnableUserUnits
  with wt obtain xs where "args = [PyList (map PyStr xs)]"
    using args_list [of args] by (auto simp: well_typed_def)
  with EnableUserUnits have "op_of (Call_enable_user_units xs) = m \<and> py_args (Call_enable_user_units xs) = args"
    by simp
  then show ?thesis by (rule exI)
next
  case DisableUserUnits
  with wt obtain xs where "args = [PyList (map PyStr xs)]"
    using args_list [of args] by (auto simp: well_typed_def)
  with DisableUserUnits have "op_of (Call_disable_user_units xs) = m \<and> py_args (Call_disable_user_units xs) = args"
    by simp
  then show ?thesis by (rule exI)
next
  case CompareVersions
  with wt obtain s t where "args = [PyStr s, PyStr t]"
    using args_str_str [of args] by (auto simp: well_typed_def)
  with CompareVersions have "op_of (Call_compare_versions s t) = m \<and> py_args (Call_compare_versions s t) = args"
    by simp
  then show ?thesis by (rule exI)
next
  case GitClone
  with wt obtain s t where "args = [PyStr s, PyStr t]"
    using args_str_str [of args] by (auto simp: well_typed_def)
  with GitClone have "op_of (Call_git_clone s t) = m \<and> py_args (Call_git_clone s t) = args"
    by simp
  then show ?thesis by (rule exI)
next
  case GitDiff
  with wt obtain s where "args = [PyStr s]"
    using args_str [of args] by (auto simp: well_typed_def)
  with GitDiff have "op_of (Call_git_diff s) = m \<and> py_args (Call_git_diff s) = args"
    by simp
  then show ?thesis by (rule exI)
next
  case GitGetCommitId
  with wt have "args = []"
    by (simp add: well_typed_def)
  with GitGetCommitId have "op_of Call_git_get_commit_id = m \<and> py_args Call_git_get_commit_id = args"
    by simp
  then show ?thesis by (rule exI)
next
  case ReviewFile
  with wt obtain s where "args = [PyStr s]"
    using args_str [of args] by (auto simp: well_typed_def)
  with ReviewFile have "op_of (Call_review_file s) = m \<and> py_args (Call_review_file s) = args"
    by simp
  then show ?thesis by (rule exI)
next
  case MakeChroot
  with wt obtain s xs where "args = [PyStr s, PyList (map PyStr xs)]"
    using args_str_list [of args] by (auto simp: well_typed_def)
  with MakeChroot have "op_of (Call_make_chroot s xs) = m \<and> py_args (Call_make_chroot s xs) = args"
    by simp
  then show ?thesis by (rule exI)
next
  case MakeChrootPkg
  with wt obtain s t xs where "args = [PyStr s, PyStr t, PyList (map PyStr xs)]"
    using args_str_str_list [of args] by (auto simp: well_typed_def)
  with MakeChrootPkg have "op_of (Call_make_chroot_pkg s t xs) = m \<and> py_args (Call_make_chroot_pkg s t xs) = args"
    by simp
  then show ?thesis by (rule exI)
qed

text \<open>
  The exceptions are reachable: a package list that is \<^verbatim>\<open>None\<close> or a \<^verbatim>\<open>str\<close>, a missing or
  a surplus argument, and an \<^verbatim>\<open>int\<close> to iterate over all raise \<^verbatim>\<open>TypeError\<close>.
\<close>

lemma ill_typed_raises:
  "py_call InstallPkgs [PyNone] = Inl TypeError"
  "py_call InstallPkgs [PyStr ''foo''] = Inl TypeError"
  "py_call InstallPkgs [] = Inl TypeError"
  "py_call MakeChrootPkg [PyStr ''/c'', PyStr ''build'', PyInt 3] = Inl TypeError"
  "py_call Upgrade [PyList []] = Inl TypeError"
  by simp_all

text \<open>
  A child class that defines \<^verbatim>\<open>install_pkgs\<close> does change what \<^verbatim>\<open>install_pkgs\<close> returns.
\<close>

lemma override_changes_overridden:
  "invoke (override_method Commands_default (Def_install_pkgs (\<lambda>pkgs. [''yay'', ''-S''] @ pkgs)))
     (Call_install_pkgs [''foo'']) = [''yay'', ''-S'', ''foo'']"
  by simp

subsection \<open>The claims\<close>

text \<open>
  C1. The golden vectors of the default commands: installing \<open>foo\<close> and \<open>bar\<close> from the
  repositories is \<open>pacman -S --asexplicit foo bar\<close>, and building a package in the chroot
  \<open>/c\<close> as user \<open>build\<close> with two package files to install first is
  \<open>makechrootpkg -r /c -U build -I a.pkg.tar.zst -I b.pkg.tar.zst\<close>.
\<close>

theorem golden_vectors:
  "install_pkgs Commands_default [''foo'', ''bar'']
     = [''pacman'', ''-S'', ''--asexplicit'', ''foo'', ''bar'']
   \<and> make_chroot_pkg Commands_default ''/c'' ''build'' [''a.pkg.tar.zst'', ''b.pkg.tar.zst'']
     = [''makechrootpkg'', ''-r'', ''/c'', ''-U'', ''build'',
        ''-I'', ''a.pkg.tar.zst'', ''-I'', ''b.pkg.tar.zst'']"
  by (simp add: Commands_default_def)

text \<open>
  C2. The claim: \<^verbatim>\<open>disable_user_units\<close> returns the vector of \<^verbatim>\<open>disable_units\<close> with the
  flag \<^verbatim>\<open>--user\<close>, as \<^verbatim>\<open>enable_user_units\<close> returns that of \<^verbatim>\<open>enable_units\<close> with the flag.
  The method's docstring says the units are disabled for the user the command is run as,
  but its body is that of \<^verbatim>\<open>disable_units\<close>: on the unit \<open>foo.service\<close> the two vectors are
  equal, the flag is absent, and the vector is not the one with the flag after the fixed
  tokens, while \<^verbatim>\<open>enable_user_units\<close> does carry the flag there.
\<close>

theorem disable_user_units_lacks_user_flag:
  "disable_user_units Commands_default [''foo.service'']
     = [''systemctl'', ''disable'', ''--quiet'', ''foo.service'']
   \<and> disable_user_units Commands_default [''foo.service'']
     = disable_units Commands_default [''foo.service'']
   \<and> ''--user'' \<notin> set (disable_user_units Commands_default [''foo.service''])
   \<and> enable_user_units Commands_default [''foo.service'']
     = enable_units Commands_default [] @ [''--user''] @ [''foo.service'']
   \<and> disable_user_units Commands_default [''foo.service'']
     \<noteq> disable_units Commands_default [] @ [''--user''] @ [''foo.service'']"
  by (simp add: Commands_default_def)

text \<open>
  C3. Whatever the method and its arguments (empty lists and empty strings among them), the
  vector of the default commands is not empty, and its first token is the program of the
  method, which depends on the method only and is one of the seven programs.
\<close>

theorem first_token:
  "invoke Commands_default cl \<noteq> []
   \<and> hd (invoke Commands_default cl) = external_program (op_of cl)
   \<and> external_program (op_of cl) \<in> set [''pacman'', ''systemctl'', ''vercmp'', ''git'', ''less'',
        ''mkarchroot'', ''makechrootpkg'']"
  by (cases cl) (simp_all add: Commands_default_def make_chroot_pkg_loop_concat)

text \<open>
  C4. For a call of a method that takes a list, the vector starts with the vector the
  method returns on the empty list (the fixed tokens), and after it every element of the
  list is a token of its own, unchanged and in the order of the list: the \<open>i\<close>-th element is
  the last of the \<open>i\<close>-th group of \<open>k\<close> tokens, where \<open>k\<close> is 2 for \<^verbatim>\<open>make_chroot_pkg\<close> (each
  file follows its flag \<^verbatim>\<open>-I\<close>) and 1 otherwise; the vector has no other tokens.
\<close>

theorem list_arguments_verbatim_in_order:
  "list_arg cl = Some xs \<Longrightarrow>
     (let out = invoke Commands_default cl;
          fixed = invoke Commands_default (with_list_arg cl []);
          k = tokens_per_item (op_of cl)
      in take (length fixed) out = fixed
         \<and> length out = length fixed + k * length xs
         \<and> (\<forall>i<length xs. out ! (length fixed + k * i + (k - 1)) = xs ! i)
         \<and> (\<forall>i<length xs. \<forall>j<k - 1. out ! (length fixed + k * i + j) = ''-I''))"
proof (cases cl)
  case (Call_make_chroot_pkg chroot_dir user pkgfiles_to_install)
  assume "list_arg cl = Some xs"
  with Call_make_chroot_pkg have xs: "pkgfiles_to_install = xs" by simp
  have out: "invoke Commands_default cl
      = [''makechrootpkg'', ''-r'', chroot_dir, ''-U'', user] @ concat (map (\<lambda>x. [''-I'', x]) xs)"
    using Call_make_chroot_pkg xs
    by (simp add: Commands_default_def make_chroot_pkg_loop_concat)
  have fixed: "invoke Commands_default (with_list_arg cl [])
      = [''makechrootpkg'', ''-r'', chroot_dir, ''-U'', user]"
    using Call_make_chroot_pkg by (simp add: Commands_default_def)
  have k: "tokens_per_item (op_of cl) = 2"
    using Call_make_chroot_pkg by simp
  have nth: "([''makechrootpkg'', ''-r'', chroot_dir, ''-U'', user]
               @ concat (map (\<lambda>x. [''-I'', x]) xs)) ! (5 + n)
             = concat (map (\<lambda>x. [''-I'', x]) xs) ! n" for n
    by (simp add: nth_append)
  show ?thesis
    unfolding Let_def out fixed k
    using flagged_nth [of _ xs "''-I''"] nth
    by (simp add: flagged_length)
qed (simp_all add: Commands_default_def nth_append)

text \<open>
  At the golden input of \<^verbatim>\<open>make_chroot_pkg\<close>, the second file is token 8 and its flag is token 7.
\<close>

theorem list_arguments_verbatim_in_order_witness:
  "list_arg (Call_make_chroot_pkg ''/c'' ''build'' [''a.pkg.tar.zst'', ''b.pkg.tar.zst''])
     = Some [''a.pkg.tar.zst'', ''b.pkg.tar.zst'']
   \<and> (1::nat) < length [''a.pkg.tar.zst'', ''b.pkg.tar.zst'']
   \<and> invoke Commands_default
         (Call_make_chroot_pkg ''/c'' ''build'' [''a.pkg.tar.zst'', ''b.pkg.tar.zst'']) ! 8
       = ''b.pkg.tar.zst''
   \<and> invoke Commands_default
         (Call_make_chroot_pkg ''/c'' ''build'' [''a.pkg.tar.zst'', ''b.pkg.tar.zst'']) ! 7
       = ''-I''"
proof -
  have h: "list_arg (Call_make_chroot_pkg ''/c'' ''build'' [''a.pkg.tar.zst'', ''b.pkg.tar.zst''])
             = Some [''a.pkg.tar.zst'', ''b.pkg.tar.zst'']"
    by simp
  have fixed: "length (invoke Commands_default
      (with_list_arg (Call_make_chroot_pkg ''/c'' ''build'' [''a.pkg.tar.zst'', ''b.pkg.tar.zst''])
         [])) = 5"
    by (simp add: Commands_default_def)
  have i: "(1::nat) < length [''a.pkg.tar.zst'', ''b.pkg.tar.zst'']"
    by simp
  note t = list_arguments_verbatim_in_order [OF h, unfolded Let_def fixed]
  from t have a: "\<forall>i<length [''a.pkg.tar.zst'', ''b.pkg.tar.zst''].
      invoke Commands_default
        (Call_make_chroot_pkg ''/c'' ''build'' [''a.pkg.tar.zst'', ''b.pkg.tar.zst''])
        ! (5 + tokens_per_item MakeChrootPkg * i + (tokens_per_item MakeChrootPkg - 1))
      = [''a.pkg.tar.zst'', ''b.pkg.tar.zst''] ! i"
    by simp
  from t have b: "\<forall>i<length [''a.pkg.tar.zst'', ''b.pkg.tar.zst''].
      \<forall>j<tokens_per_item MakeChrootPkg - 1.
      invoke Commands_default
        (Call_make_chroot_pkg ''/c'' ''build'' [''a.pkg.tar.zst'', ''b.pkg.tar.zst''])
        ! (5 + tokens_per_item MakeChrootPkg * i + j) = ''-I''"
    by simp
  from a [rule_format, OF i] b [rule_format, OF i, of 0] h i show ?thesis
    by simp
qed

text \<open>
  C5. A child class that overrides one method of the default commands returns, for every call
  of another method, the vector of the default commands; so does a caller that goes
  through the module variable \<^verbatim>\<open>commands\<close> after the child's instance has been assigned to it.
\<close>

theorem override_frame:
  "overridden ov \<noteq> op_of cl \<Longrightarrow>
     invoke (override_method Commands_default ov) cl = invoke Commands_default cl
   \<and> run (set_commands (override_method Commands_default ov) config_init) cl
       = run config_init cl"
  by (simp add: invoke_override_other run_def set_commands_def config_init_def)

text \<open>
  With \<^verbatim>\<open>install_pkgs\<close> overridden to use another program, \<^verbatim>\<open>remove\<close> is still \<open>pacman -Rs\<close>.
\<close>

theorem override_frame_witness:
  "overridden (Def_install_pkgs (\<lambda>pkgs. [''yay'', ''-S''] @ pkgs)) \<noteq> op_of (Call_remove [''foo''])
   \<and> invoke (override_method Commands_default (Def_install_pkgs (\<lambda>pkgs. [''yay'', ''-S''] @ pkgs)))
         (Call_remove [''foo''])
       = [''pacman'', ''-Rs'', ''foo'']
   \<and> run (set_commands
         (override_method Commands_default (Def_install_pkgs (\<lambda>pkgs. [''yay'', ''-S''] @ pkgs)))
         config_init) (Call_remove [''foo''])
       = [''pacman'', ''-Rs'', ''foo'']"
proof -
  have h: "overridden (Def_install_pkgs (\<lambda>pkgs. [''yay'', ''-S''] @ pkgs))
             \<noteq> op_of (Call_remove [''foo''])"
    by simp
  have d: "invoke Commands_default (Call_remove [''foo'']) = [''pacman'', ''-Rs'', ''foo'']"
    by (simp add: Commands_default_def)
  show ?thesis
    using h override_frame [OF h] d by (simp add: run_def config_init_def)
qed

text \<open>
  C6. When the arguments of a method have the annotated types, evaluating its body raises no
  exception: the arguments are those of a typed call, and the result is the list of the
  tokens that the typed method returns for it.
\<close>

theorem construction_succeeds:
  "well_typed m args \<Longrightarrow>
     \<exists>cl. op_of cl = m \<and> py_args cl = args
        \<and> py_call m args = Inr (PyList (map PyStr (invoke Commands_default cl)))"
proof -
  assume "well_typed m args"
  then obtain cl where cl: "op_of cl = m" "py_args cl = args"
    using well_typed_call by blast
  have "py_call (op_of cl) (py_args cl) = Inr (PyList (map PyStr (invoke Commands_default cl)))"
    by (rule py_call_typed)
  with cl show ?thesis by auto
qed

text \<open>
  The empty package list is well typed and is not rejected.
\<close>

theorem construction_succeeds_witness:
  "well_typed InstallPkgs [PyList []]
   \<and> py_call InstallPkgs [PyList []]
       = Inr (PyList [PyStr ''pacman'', PyStr ''-S'', PyStr ''--asexplicit''])"
proof -
  have wt: "well_typed InstallPkgs [PyList []]"
    by (simp add: well_typed_def)
  from construction_succeeds [OF wt] obtain cl where
    "op_of cl = InstallPkgs" and "py_args cl = [PyList []]" and
    r: "py_call InstallPkgs [PyList []] = Inr (PyList (map PyStr (invoke Commands_default cl)))"
    by blast
  then have "cl = Call_install_pkgs []"
    by (cases cl) simp_all
  with r wt show ?thesis
    by (simp add: Commands_default_def)
qed

text \<open>
  C7. \<^verbatim>\<open>compare_versions\<close> returns three tokens: \<open>vercmp\<close>, the installed version, the new
  version, in this order.
\<close>

theorem compare_versions_vector:
  "compare_versions Commands_default installed_version new_version
     = [''vercmp'', installed_version, new_version]
   \<and> length (compare_versions Commands_default installed_version new_version) = 3
   \<and> compare_versions Commands_default installed_version new_version ! 0 = ''vercmp''
   \<and> compare_versions Commands_default installed_version new_version ! 1 = installed_version
   \<and> compare_versions Commands_default installed_version new_version ! 2 = new_version"
  by (simp add: Commands_default_def)

text \<open>
  C8. The list of recognised extensions is not empty; \<open>pkgname\<close> followed by any of its
  members is recognised; a name that ends with none of them is not; and the test gives the
  same answer for every list with the same members, whatever their order.
\<close>

theorem valid_pkgexts_membership:
  "valid_pkgexts config_init \<noteq> []
   \<and> (\<forall>s \<in> set (valid_pkgexts config_init).
         has_valid_pkgext (valid_pkgexts config_init) (''pkgname'' @ s))
   \<and> ((\<forall>s \<in> set (valid_pkgexts config_init). \<not> suffix s name)
         \<longrightarrow> \<not> has_valid_pkgext (valid_pkgexts config_init) name)
   \<and> (set exts = set (valid_pkgexts config_init)
         \<longrightarrow> has_valid_pkgext exts name = has_valid_pkgext (valid_pkgexts config_init) name)"
proof -
  have ne: "valid_pkgexts config_init \<noteq> []"
    by (simp add: config_init_def)
  have own: "has_valid_pkgext es (''pkgname'' @ s)" if "s \<in> set es" for es s
    using that unfolding has_valid_pkgext_def list_ex_iff by (blast intro: suffix_appendI)
  have none: "\<not> has_valid_pkgext es name" if "\<forall>s \<in> set es. \<not> suffix s name" for es
    using that unfolding has_valid_pkgext_def list_ex_iff by blast
  have order: "has_valid_pkgext es name = has_valid_pkgext es' name" if "set es = set es'"
    for es es'
    using that unfolding has_valid_pkgext_def list_ex_iff by simp
  from ne own none order show ?thesis by blast
qed

text \<open>
  \<open>pkgname.pkg.tar.zst\<close> is recognised, also with the list reversed, and \<open>notes.txt\<close> is not.
\<close>

theorem valid_pkgexts_membership_witness:
  "''.pkg.tar.zst'' \<in> set (valid_pkgexts config_init)
   \<and> has_valid_pkgext (valid_pkgexts config_init) ''pkgname.pkg.tar.zst''
   \<and> \<not> has_valid_pkgext (valid_pkgexts config_init) ''notes.txt''
   \<and> set (rev (valid_pkgexts config_init)) = set (valid_pkgexts config_init)
   \<and> has_valid_pkgext (rev (valid_pkgexts config_init)) ''pkgname.pkg.tar.zst''"
proof -
  note t = valid_pkgexts_membership [of "''notes.txt''" "rev (valid_pkgexts config_init)"]
  note t' = valid_pkgexts_membership [of "''pkgname.pkg.tar.zst''" "rev (valid_pkgexts config_init)"]
  have m: "''.pkg.tar.zst'' \<in> set (valid_pkgexts config_init)"
    by (simp add: config_init_def)
  have n: "\<forall>s \<in> set (valid_pkgexts config_init). \<not> suffix s ''notes.txt''"
    by (simp add: config_init_def suffix_to_prefix)
  have r: "set (rev (valid_pkgexts config_init)) = set (valid_pkgexts config_init)"
    by simp
  from t m have a: "has_valid_pkgext (valid_pkgexts config_init) (''pkgname'' @ ''.pkg.tar.zst'')"
    by blast
  from t n have b: "\<not> has_valid_pkgext (valid_pkgexts config_init) ''notes.txt''"
    by blast
  from t' r have c: "has_valid_pkgext (rev (valid_pkgexts config_init)) ''pkgname.pkg.tar.zst''
      = has_valid_pkgext (valid_pkgexts config_init) ''pkgname.pkg.tar.zst''"
    by blast
  from a b c m r show ?thesis by simp
qed

text \<open>
  C9. When the module has been loaded the timeout is the integer 30. A timeout set to
  \<^verbatim>\<open>None\<close> differs from every integer value, 0 among them, and so do the configurations that
  hold them.
\<close>

theorem aur_rpc_timeout_optional:
  "aur_rpc_timeout config_init = Some 30
   \<and> (\<forall>n. aur_rpc_timeout (cfg\<lparr>aur_rpc_timeout := None\<rparr>) \<noteq> Some n)
   \<and> (\<forall>n. cfg\<lparr>aur_rpc_timeout := None\<rparr> \<noteq> cfg\<lparr>aur_rpc_timeout := Some n\<rparr>)
   \<and> aur_rpc_timeout (cfg\<lparr>aur_rpc_timeout := None\<rparr>)
       \<noteq> aur_rpc_timeout (cfg\<lparr>aur_rpc_timeout := Some 0\<rparr>)
   \<and> aur_rpc_timeout config_init \<noteq> None"
proof -
  have "cfg\<lparr>aur_rpc_timeout := None\<rparr> \<noteq> cfg\<lparr>aur_rpc_timeout := Some n\<rparr>" for n
  proof
    assume "cfg\<lparr>aur_rpc_timeout := None\<rparr> = cfg\<lparr>aur_rpc_timeout := Some n\<rparr>"
    then have "aur_rpc_timeout (cfg\<lparr>aur_rpc_timeout := None\<rparr>)
                 = aur_rpc_timeout (cfg\<lparr>aur_rpc_timeout := Some n\<rparr>)"
      by (rule arg_cong)
    then show False by simp
  qed
  then show ?thesis by (simp add: config_init_def)
qed

text \<open>
  C10. On the empty list a method that takes a list returns its fixed tokens and nothing
  else: the eleven vectors below, one for each such method as its body is written, and in
  general a vector that every vector of the method starts with.
\<close>

theorem empty_list_fixed_prefix:
  "install_pkgs Commands_default [] = [''pacman'', ''-S'', ''--asexplicit'']
   \<and> install_files Commands_default [] = [''pacman'', ''-U'', ''--asdeps'']
   \<and> set_as_explicitly_installed Commands_default [] = [''pacman'', ''-D'', ''--asexplicit'']
   \<and> install_deps Commands_default [] = [''pacman'', ''-S'', ''--needed'', ''--asdeps'']
   \<and> remove Commands_default [] = [''pacman'', ''-Rs'']
   \<and> enable_units Commands_default [] = [''systemctl'', ''enable'', ''--now'', ''--quiet'']
   \<and> disable_units Commands_default [] = [''systemctl'', ''disable'', ''--quiet'']
   \<and> enable_user_units Commands_default []
       = [''systemctl'', ''enable'', ''--now'', ''--quiet'', ''--user'']
   \<and> disable_user_units Commands_default [] = [''systemctl'', ''disable'', ''--quiet'']
   \<and> make_chroot Commands_default c [] = [''mkarchroot'', c]
   \<and> make_chroot_pkg Commands_default c u [] = [''makechrootpkg'', ''-r'', c, ''-U'', u]
   \<and> prefix (invoke Commands_default (with_list_arg cl []))
        (invoke Commands_default (with_list_arg cl xs))"
proof -
  have "prefix (invoke Commands_default (with_list_arg cl []))
          (invoke Commands_default (with_list_arg cl xs))"
    by (cases cl) (simp_all add: Commands_default_def make_chroot_pkg_loop_concat)
  then show ?thesis
    by (simp add: Commands_default_def)
qed

end
